theory Spec2Isabelle
  imports Complex_Main "HOL-Library.AList"
begin

section \<open>Time\<close>

text \<open>
  Python's \<open>datetime\<close> and \<open>timedelta\<close> have microsecond resolution: a point in time is
  the number of microseconds since a fixed epoch, a duration a number of microseconds.
\<close>

type_synonym datetime = int
type_synonym timedelta = int

subsection \<open>Double-precision arithmetic\<close>

text \<open>
  A Python \<open>float\<close> is an IEEE 754 double. The pair \<open>(m, e)\<close> stands for the double
  \<open>m * 2 ** e\<close>, with a mantissa \<open>m\<close> of at most 53 bits. Every operation rounds its exact
  result to the nearest double, ties to the even mantissa. The exponent range is not
  modelled: the quantities computed here (durations of at most \<open>10 ** 9\<close> days, in
  seconds and milliseconds) neither overflow nor reach the subnormal range.
\<close>

type_synonym double = "int \<times> int"

definition dbl_value :: "double \<Rightarrow> real" where
  "dbl_value x =
     (if snd x \<ge> 0 then real_of_int (fst x * 2 ^ nat (snd x))
      else real_of_int (fst x) / 2 ^ nat (- snd x))"

text \<open>Comparison of a float with an \<open>int\<close>: Python compares the exact values.\<close>

definition dbl_ge_int :: "double \<Rightarrow> int \<Rightarrow> bool" where
  "dbl_ge_int x q =
     (if snd x \<ge> 0 then fst x * 2 ^ nat (snd x) \<ge> q
      else fst x \<ge> q * 2 ^ nat (- snd x))"

text \<open>The number of binary digits of a positive integer.\<close>

function bit_length :: "int \<Rightarrow> nat" where
  "bit_length n = (if n \<le> 0 then 0 else Suc (bit_length (n div 2)))"
  by pat_completeness auto
termination
  by (relation "measure nat") auto

declare bit_length.simps [simp del]

text \<open>
  \<open>n / 2 ** s\<close> for \<open>n \<ge> 0\<close>, rounded to the nearest integer, ties to even. \<open>sticky\<close>
  tells that the exact value lies strictly above \<open>n\<close> (a remainder was cut off before).
\<close>

definition round_shift :: "int \<Rightarrow> nat \<Rightarrow> bool \<Rightarrow> int" where
  "round_shift n s sticky =
     (let q = n div 2 ^ s; r = n mod 2 ^ s; half = 2 ^ (s - 1)
      in if s = 0 then n
         else if r > half \<or> (r = half \<and> (sticky \<or> odd q)) then q + 1 else q)"

text \<open>\<open>n * 2 ** e\<close> for \<open>n \<ge> 0\<close>, rounded to 53 bits.\<close>

definition round53 :: "int \<Rightarrow> int \<Rightarrow> bool \<Rightarrow> double" where
  "round53 n e sticky =
     (if bit_length n \<le> 53 then (n, e)
      else (round_shift n (bit_length n - 53) sticky, e + int (bit_length n - 53)))"

text \<open>Float multiplication: the exact product of the two doubles, rounded.\<close>

definition dbl_mul :: "double \<Rightarrow> double \<Rightarrow> double" where
  "dbl_mul x y =
     (let p = fst x * fst y;
          r = round53 \<bar>p\<bar> (snd x + snd y) False
      in (sgn p * fst r, snd r))"

text \<open>
  True division \<open>p / q\<close> of two \<open>int\<close>s (\<open>q \<noteq> 0\<close>), which Python rounds correctly: the
  quotient is computed to at least 56 bits, the remainder kept as the sticky bit.
\<close>

definition dbl_div_int :: "int \<Rightarrow> int \<Rightarrow> double" where
  "dbl_div_int p q =
     (let a = \<bar>p\<bar>; b = \<bar>q\<bar>;
          k = (bit_length b + 56) - bit_length a;
          n = (a * 2 ^ k) div b;
          sticky = ((a * 2 ^ k) mod b \<noteq> 0);
          r = round53 n (- int k) sticky
      in if a = 0 then (0, 0) else (sgn p * sgn q * fst r, snd r))"

text \<open>Conversion of an \<open>int\<close> to a float.\<close>

definition dbl_of_int :: "int \<Rightarrow> double" where
  "dbl_of_int n = (let r = round53 \<bar>n\<bar> 0 False in (sgn n * fst r, snd r))"

text \<open>\<open>timedelta.total_seconds()\<close>: the microseconds divided by \<open>10**6\<close>.\<close>

definition total_seconds :: "timedelta \<Rightarrow> double" where
  "total_seconds td = dbl_div_int td 1000000"

definition timedelta_seconds :: "int \<Rightarrow> timedelta" where
  "timedelta_seconds s = s * 1000000"

section \<open>audio\_monitor.py: AudioMonitor\<close>

text \<open>
  The fields of \<open>AudioMonitor\<close> that \<open>_process_db_level\<close> and \<open>is_quiet\<close> read or write.
  \<open>on_loud\<close> and \<open>on_quiet\<close> are optional callbacks of the caller: the model records only
  whether one is registered, and \<open>_process_db_level\<close> returns which one it invoked.
\<close>

record AudioMonitor =
  threshold_db :: real
  quiet_duration_ms :: int
  current_db :: real
  db_history :: "real list"
  last_loud_time :: "datetime option"
  on_loud :: bool
  on_quiet :: bool

datatype callback = OnLoud real | OnQuiet real

definition AudioMonitor_init :: "real \<Rightarrow> int \<Rightarrow> AudioMonitor" where
  "AudioMonitor_init thr q =
     \<lparr>threshold_db = thr, quiet_duration_ms = q, current_db = 0, db_history = [],
      last_loud_time = None, on_loud = False, on_quiet = False\<rparr>"

text \<open>\<open>deque(maxlen=50).append\<close>: the oldest element is dropped once 50 are held.\<close>

definition deque_append :: "nat \<Rightarrow> 'a list \<Rightarrow> 'a \<Rightarrow> 'a list" where
  "deque_append maxlen xs x =
     (if maxlen = 0 then []
      else if length xs \<ge> maxlen then drop (Suc (length xs - maxlen)) xs @ [x]
      else xs @ [x])"

text \<open>\<open>is_quiet\<close>, with the value of \<open>datetime.now()\<close> passed in.\<close>

definition is_quiet :: "datetime \<Rightarrow> AudioMonitor \<Rightarrow> bool" where
  "is_quiet now m =
     (if current_db m > threshold_db m then False
      else case last_loud_time m of
             None \<Rightarrow> True
           | Some t \<Rightarrow>
               (let elapsed_ms = dbl_mul (total_seconds (now - t)) (dbl_of_int 1000)
                in dbl_ge_int elapsed_ms (quiet_duration_ms m)))"

definition process_db_level :: "datetime \<Rightarrow> real \<Rightarrow> AudioMonitor \<Rightarrow> AudioMonitor \<times> callback option" where
  "process_db_level now db m0 =
     (let m = m0\<lparr>current_db := db, db_history := deque_append 50 (db_history m0) db\<rparr>
      in if db > threshold_db m
         then (m\<lparr>last_loud_time := Some now\<rparr>, if on_loud m then Some (OnLoud db) else None)
         else (m, if is_quiet now m \<and> on_quiet m then Some (OnQuiet db) else None))"

text \<open>A run of the monitoring loop: each sample is a clock reading and a level.\<close>

fun observe_all :: "AudioMonitor \<Rightarrow> (datetime \<times> real) list \<Rightarrow> AudioMonitor" where
  "observe_all m [] = m"
| "observe_all m ((t, db) # rest) = observe_all (fst (process_db_level t db m)) rest"

text \<open>
  The words of the specification: the level last observed (the initial level 0 when
  nothing was observed yet), and the observed samples that were above the threshold.
\<close>

definition current_level :: "(datetime \<times> real) list \<Rightarrow> real" where
  "current_level samples = (if samples = [] then 0 else snd (last samples))"

definition loud_samples :: "real \<Rightarrow> (datetime \<times> real) list \<Rightarrow> (datetime \<times> real) list" where
  "loud_samples thr samples = filter (\<lambda>sample. snd sample > thr) samples"

definition ms :: "int \<Rightarrow> datetime" where
  "ms n = n * 1000"

section \<open>main.py: CinemateCareOrchestrator\<close>

text \<open>
  The dictionary that \<open>_vision_worker\<close> puts on \<open>caption_queue\<close> for each analysed frame.
\<close>

record caption_data =
  caption :: string
  timestamp :: string
  people_count :: int
  dense_captions :: "string list"

text \<open>
  \<open>queue.Queue()\<close> is constructed without \<open>maxsize\<close>: the queue is unbounded, \<open>put\<close>
  appends and never blocks, \<open>get_nowait\<close> removes the oldest item or raises \<open>Empty\<close>.
\<close>

datatype queue_error = Empty

definition put :: "'a \<Rightarrow> 'a list \<Rightarrow> 'a list" where
  "put item q = q @ [item]"

definition get_nowait :: "'a list \<Rightarrow> queue_error + ('a \<times> 'a list)" where
  "get_nowait q = (case q of [] \<Rightarrow> Inl Empty | item # rest \<Rightarrow> Inr (item, rest))"

record Orchestrator =
  user_history :: "string list"
  max_history :: nat
  latest_caption :: "string option"
  last_distress_check :: datetime
  distress_cooldown :: timedelta
  caption_queue :: "caption_data list"

definition Orchestrator_init :: "datetime \<Rightarrow> Orchestrator" where
  "Orchestrator_init now =
     \<lparr>user_history = [], max_history = 20, latest_caption = None,
      last_distress_check = now, distress_cooldown = timedelta_seconds 30,
      caption_queue = []\<rparr>"

text \<open>The producer: \<open>_vision_worker\<close> publishing one observation.\<close>

definition vision_worker_put :: "caption_data \<Rightarrow> Orchestrator \<Rightarrow> Orchestrator" where
  "vision_worker_put d orch = orch\<lparr>caption_queue := put d (caption_queue orch)\<rparr>"

text \<open>
  The consumer: step 1 of one iteration of \<open>_main_loop\<close>. The second component is the
  item taken from the queue, if there was one.
\<close>

definition main_loop_step1 :: "Orchestrator \<Rightarrow> Orchestrator \<times> caption_data option" where
  "main_loop_step1 orch =
     (case get_nowait (caption_queue orch) of
        Inr (d, rest) \<Rightarrow> (orch\<lparr>latest_caption := Some (caption d), caption_queue := rest\<rparr>, Some d)
      | Inl Empty \<Rightarrow> (orch, None))"

text \<open>
  Any interleaving of the two threads on the queue: a sequence of pushes and pops. The
  result is the final state and the observations consumed, in order.
\<close>

datatype queue_op = Push caption_data | Pop

fun run_ops :: "Orchestrator \<Rightarrow> queue_op list \<Rightarrow> Orchestrator \<times> caption_data list" where
  "run_ops orch [] = (orch, [])"
| "run_ops orch (Push d # ops) = run_ops (vision_worker_put d orch) ops"
| "run_ops orch (Pop # ops) =
     (case main_loop_step1 orch of
        (orch', None) \<Rightarrow> run_ops orch' ops
      | (orch', Some d) \<Rightarrow> (case run_ops orch' ops of (orch'', got) \<Rightarrow> (orch'', d # got)))"

fun pushed :: "queue_op list \<Rightarrow> caption_data list" where
  "pushed [] = []"
| "pushed (Push d # ops) = d # pushed ops"
| "pushed (Pop # ops) = pushed ops"

definition obs :: "string \<Rightarrow> caption_data" where
  "obs c = \<lparr>caption = c, timestamp = [], people_count = 0, dense_captions = []\<rparr>"

text \<open>A request handed to \<open>voice.speak_async\<close>: the text and the style.\<close>

type_synonym speech = "string \<times> string"

definition comfort_message :: string where
  "comfort_message =
     ''I noticed you might be feeling overwhelmed. '' @
     ''Would you like me to pause the movie? '' @
     ''Take all the time you need.''"

definition on_distress :: "datetime \<Rightarrow> Orchestrator \<Rightarrow> Orchestrator \<times> speech option" where
  "on_distress now orch =
     (if now - last_distress_check orch < distress_cooldown orch then (orch, None)
      else (orch\<lparr>last_distress_check := now\<rparr>, Some (comfort_message, ''empathetic'')))"

text \<open>
  The distress callback invoked at each of the given clock readings, in order; the result
  is the final state and the times at which a comfort message was spoken.
\<close>

fun distress_events :: "Orchestrator \<Rightarrow> datetime list \<Rightarrow> Orchestrator \<times> datetime list" where
  "distress_events orch [] = (orch, [])"
| "distress_events orch (now # rest) =
     (case on_distress now orch of
        (orch', None) \<Rightarrow> distress_events orch' rest
      | (orch', Some _) \<Rightarrow>
          (case distress_events orch' rest of (orch'', spoken) \<Rightarrow> (orch'', now # spoken)))"

section \<open>vision\_capture.py: the keyframe detector of VisionCapture\<close>

text \<open>
  A frame (\<open>'f\<close>) and its grayscale image (\<open>'g\<close>) are opaque pixel buffers.
  \<open>cv2.cvtColor\<close> and \<open>skimage\<close>'s \<open>structural_similarity\<close> are library functions,
  passed to the model as parameters; \<open>None\<close> stands for a raised exception. The clock
  reading \<open>time.time()\<close> is passed in as well (seconds, an exact real in the model).
\<close>

record 'g VisionCapture =
  ssim_threshold :: real
  max_interval_seconds :: real
  previous_frame_gray :: "'g option"
  last_analysis_time :: real

definition VisionCapture_init :: "real \<Rightarrow> real \<Rightarrow> 'g VisionCapture" where
  "VisionCapture_init thr maxi =
     \<lparr>ssim_threshold = thr, max_interval_seconds = maxi,
      previous_frame_gray = None, last_analysis_time = 0\<rparr>"

datatype vision_error = CvtColorError

text \<open>
  \<open>is_keyframe\<close> returns the verdict (or the exception that leaves the method) together
  with the detector's state after the call.
\<close>

definition remember :: "'g \<Rightarrow> real \<Rightarrow> 'g VisionCapture \<Rightarrow> 'g VisionCapture" where
  "remember current_gray current_time v =
     v\<lparr>previous_frame_gray := Some current_gray, last_analysis_time := current_time\<rparr>"

definition is_keyframe ::
  "('f \<Rightarrow> 'g option) \<Rightarrow> ('g \<Rightarrow> 'g \<Rightarrow> real option) \<Rightarrow> real \<Rightarrow> 'f \<Rightarrow> 'g VisionCapture
     \<Rightarrow> (vision_error + bool) \<times> 'g VisionCapture" where
  "is_keyframe cvtColor ssim current_time current_frame v =
     (case cvtColor current_frame of
        None \<Rightarrow> (Inl CvtColorError, v)
      | Some current_gray \<Rightarrow>
          (case previous_frame_gray v of
             None \<Rightarrow> (Inr True, remember current_gray current_time v)
           | Some prev \<Rightarrow>
               (let time_since_last = current_time - last_analysis_time v
                in if time_since_last \<ge> max_interval_seconds v
                   then (Inr True, remember current_gray current_time v)
                   else (case ssim prev current_gray of
                           None \<Rightarrow> (Inr False, v)
                         | Some similarity \<Rightarrow>
                             if similarity < ssim_threshold v
                             then (Inr True, remember current_gray current_time v)
                             else (Inr False, v)))))"

text \<open>
  A small concrete instance for evaluating the detector: a frame is a list of pixel
  values, already grayscale; the similarity of equal frames is 1, of different frames of
  the same size 0, and frames of different sizes make the computation fail.
\<close>

definition toy_cvtColor :: "nat list \<Rightarrow> nat list option" where
  "toy_cvtColor f = (if f = [] then None else Some f)"

definition toy_ssim :: "nat list \<Rightarrow> nat list \<Rightarrow> real option" where
  "toy_ssim a b = (if length a \<noteq> length b then None else if a = b then Some 1 else Some 0)"

section \<open>Python values\<close>

text \<open>
  The values \<open>json.loads\<close> can return, which are also the values held by the decision
  dictionaries. A Python \<open>dict\<close> keeps its keys in insertion order: an association list.
\<close>

datatype json =
    JNull
  | JBool bool
  | JNum real
  | JStr string
  | JList "json list"
  | JDict "(string \<times> json) list"

type_synonym pydict = "(string \<times> json) list"

text \<open>The exceptions that the modelled code can meet.\<close>

datatype py_exc =
    AttributeError json
  | TypeError json
  | KeyError string
  | ValueError string

text \<open>Truth value testing (\<open>if x:\<close>, \<open>x and y\<close>).\<close>

fun truthy :: "json \<Rightarrow> bool" where
  "truthy JNull = False"
| "truthy (JBool b) = b"
| "truthy (JNum x) = (x \<noteq> 0)"
| "truthy (JStr s) = (s \<noteq> [])"
| "truthy (JList xs) = (xs \<noteq> [])"
| "truthy (JDict d) = (d \<noteq> [])"

text \<open>\<open>x[:50]\<close> is defined on strings and lists; on every other value it raises.\<close>

fun sliceable :: "json \<Rightarrow> bool" where
  "sliceable (JStr s) = True"
| "sliceable (JList xs) = True"
| "sliceable _ = False"

definition setdefault :: "string \<Rightarrow> json \<Rightarrow> pydict \<Rightarrow> pydict" where
  "setdefault k v d = (case map_of d k of None \<Rightarrow> d @ [(k, v)] | Some _ \<Rightarrow> d)"

definition setitem :: "string \<Rightarrow> json \<Rightarrow> pydict \<Rightarrow> pydict" where
  "setitem k v d = AList.update k v d"

definition getitem :: "pydict \<Rightarrow> string \<Rightarrow> py_exc + json" where
  "getitem d k = (case map_of d k of None \<Rightarrow> Inl (KeyError k) | Some v \<Rightarrow> Inr v)"

text \<open>\<open>d.get(k)\<close>: \<open>None\<close> for a missing key.\<close>

definition dict_get :: "pydict \<Rightarrow> string \<Rightarrow> json" where
  "dict_get d k = (case map_of d k of None \<Rightarrow> JNull | Some v \<Rightarrow> v)"

section \<open>cognitive\_engine.py: CognitiveEngine.analyze\_context\<close>

text \<open>
  What the reasoning collaborator did in one cycle, as \<open>analyze_context\<close> sees it:
  the call (or reading its response) raised an exception whose \<open>str\<close> is the given text,
  a timeout included; or \<open>json.loads\<close> raised \<open>JSONDecodeError\<close> on the returned text; or
  \<open>json.loads\<close> returned a value.
\<close>

datatype reasoner_outcome =
    Raised string
  | NotJson
  | Parsed json

definition fallback_response :: "string \<Rightarrow> string \<Rightarrow> pydict" where
  "fallback_response now_iso error_reason =
     [(''should_speak'', JBool False),
      (''emotion'', JStr ''neutral''),
      (''content'', JStr []),
      (''reasoning'', JStr (''Fallback due to error: '' @ error_reason)),
      (''metadata'', JDict
         [(''azure_service'', JStr ''Azure OpenAI Service (GPT-4o)''),
          (''timestamp'', JStr now_iso),
          (''error'', JBool True)])]"

text \<open>The four \<open>setdefault\<close> calls and the metadata entry.\<close>

definition validate_fields :: "string \<Rightarrow> string \<Rightarrow> pydict \<Rightarrow> pydict" where
  "validate_fields deployment now_iso result =
     setitem ''metadata''
       (JDict [(''azure_service'', JStr ''Azure OpenAI Service (GPT-4o)''),
               (''timestamp'', JStr now_iso),
               (''model'', JStr deployment)])
       (setdefault ''reasoning'' (JStr ''No reasoning provided'')
         (setdefault ''content'' (JStr [])
           (setdefault ''emotion'' (JStr ''neutral'')
             (setdefault ''should_speak'' (JBool False) result))))"

text \<open>
  The log line after validation slices \<open>result['content']\<close> when \<open>result['should_speak']\<close>
  is true and \<open>result['reasoning']\<close> otherwise; an exception there is caught by the outer
  handler like any other. The result is the exception, if one is raised.
\<close>

definition log_decision :: "pydict \<Rightarrow> py_exc option" where
  "log_decision result =
     (case getitem result ''should_speak'' of
        Inl e \<Rightarrow> Some e
      | Inr s \<Rightarrow>
          (case getitem result (if truthy s then ''content'' else ''reasoning'') of
             Inl e \<Rightarrow> Some e
           | Inr v \<Rightarrow> if sliceable v then None else Some (TypeError v)))"

text \<open>
  \<open>analyze_context\<close> from the point where the collaborator has answered. \<open>deployment\<close> is
  the engine's deployment name, \<open>now_iso\<close> the clock reading written into the metadata,
  and \<open>exc_text\<close> the interpreter's \<open>str(e)\<close> of an exception.
\<close>

definition analyze_context ::
  "string \<Rightarrow> string \<Rightarrow> (py_exc \<Rightarrow> string) \<Rightarrow> reasoner_outcome \<Rightarrow> pydict" where
  "analyze_context deployment now_iso exc_text outcome =
     (case outcome of
        Raised msg \<Rightarrow> fallback_response now_iso msg
      | NotJson \<Rightarrow> fallback_response now_iso ''JSON parsing error''
      | Parsed (JDict result0) \<Rightarrow>
          (let result = validate_fields deployment now_iso result0
           in case log_decision result of
                None \<Rightarrow> result
              | Some e \<Rightarrow> fallback_response now_iso (exc_text e))
      | Parsed j \<Rightarrow> fallback_response now_iso (exc_text (AttributeError j)))"

text \<open>
  Step 4 of one iteration of \<open>_main_loop\<close> in main.py: what is handed to
  \<open>voice.speak_async\<close> for a decision, if anything. Each branch first writes a log line
  that slices the content, or the reasoning (\<open>No reason\<close> when missing); an exception
  there leaves the step before anything is spoken.
\<close>

definition main_loop_step4 :: "pydict \<Rightarrow> py_exc + (json \<times> json) option" where
  "main_loop_step4 decision =
     (if truthy (dict_get decision ''should_speak'') \<and> truthy (dict_get decision ''content'')
      then (let emotion = (case map_of decision ''emotion'' of
                             Some e \<Rightarrow> e | None \<Rightarrow> JStr ''neutral'');
                content = dict_get decision ''content''
            in if sliceable content then Inr (Some (content, emotion))
               else Inl (TypeError content))
      else (let reasoning = (case map_of decision ''reasoning'' of
                               Some r \<Rightarrow> r | None \<Rightarrow> JStr ''No reason'')
            in if sliceable reasoning then Inr None else Inl (TypeError reasoning)))"

section \<open>demo\_mode.py: DemoMode and DemoController\<close>
definition DEMO_CLIP_RESPONSES :: "(string \<times> (string \<times> string) list) list" where
  "DEMO_CLIP_RESPONSES =
     [(''0-10'',
        [(''scene'', ''Young Carl meets young Ellie in the abandoned house''),
         (''emotion'', ''cheerful''),
         (''response'', ''Oh, what a wonderful beginning! A young boy meeting a spirited girl in '' @
            ''an old clubhouse. You can tell they're going to be best friends.'')]),
      (''10-30'',
        [(''scene'', ''Ellie shows Carl her adventure book''),
         (''emotion'', ''cheerful''),
         (''response'', ''She's showing him her adventure book! Paradise Falls in South America '' @
            ''- that's her dream destination. What a big dream for such a young '' @
            ''heart.'')]),
      (''30-60'',
        [(''scene'', ''Carl and Ellie grow up together, get married''),
         (''emotion'', ''warm''),
         (''response'', ''Look at them growing up together, getting married in the same little '' @
            ''clubhouse where they met. Some love stories are just meant to be.'')]),
      (''60-120'',
        [(''scene'', ''They fix up their house, save money for Paradise Falls''),
         (''emotion'', ''empathetic''),
         (''response'', ''They're saving pennies for their dream trip, but life keeps getting in '' @
            ''the way. A flat tire, a broken leg... that's how life goes sometimes, '' @
            ''isn't it?'')]),
      (''120-180'',
        [(''scene'', ''They discover they can't have children''),
         (''emotion'', ''empathetic''),
         (''response'', ''This is a tender moment. They're dealing with some sad news together. '' @
            ''But see how he's there for her? That's what partners do.'')]),
      (''180-240'',
        [(''scene'', ''Ellie gets sick and passes away''),
         (''emotion'', ''empathetic''),
         (''response'', ''This is a difficult scene. Ellie is saying goodbye. Would you like me '' @
            ''to pause for a moment? It's okay to feel this deeply.'')]),
      (''240+'',
        [(''scene'', ''Carl alone with the empty chair''),
         (''emotion'', ''empathetic''),
         (''response'', ''Carl is sitting alone now. But you know what? The love they shared '' @
            ''isn't gone. It lives on in every adventure he's about to take.'')])]"

definition FALLBACK_RESPONSES :: "(string \<times> string) list" where
  "FALLBACK_RESPONSES =
     [(''scene_description'',
         ''I can see an emotional scene unfolding here. The characters seem to be '' @
         ''sharing an important moment.''),
      (''question_answer'',
         ''I'm happy to help describe what's happening. The scene shows people '' @
         ''interacting in a meaningful way.''),
      (''distress'',
         ''I noticed you might need a moment. Would you like me to pause the '' @
         ''movie? I'm right here with you.''),
      (''greeting'',
         ''Hello! I'm CineMate Care, your friendly movie companion. I'm here '' @
         ''whenever you need me.''),
      (''farewell'',
         ''It was lovely watching with you. Take care, and I hope to see you '' @
         ''again soon!''),
      (''generic'',
         ''That's an interesting scene. Let me know if you'd like me to describe '' @
         ''anything specific.'')]"
record DemoMode =
  clip_responses :: "(string \<times> (string \<times> string) list) list"
  fallback_responses :: "(string \<times> string) list"
  clip_start_time :: "datetime option"
  is_demo_active :: bool

definition DemoMode_init :: DemoMode where
  "DemoMode_init =
     \<lparr>clip_responses = DEMO_CLIP_RESPONSES, fallback_responses = FALLBACK_RESPONSES,
      clip_start_time = None, is_demo_active = False\<rparr>"

definition start_demo_clip :: "datetime \<Rightarrow> DemoMode \<Rightarrow> DemoMode" where
  "start_demo_clip now dm = dm\<lparr>clip_start_time := Some now, is_demo_active := True\<rparr>"

definition stop_demo_clip :: "DemoMode \<Rightarrow> DemoMode" where
  "stop_demo_clip dm = dm\<lparr>is_demo_active := False, clip_start_time := None\<rparr>"

definition get_elapsed_seconds :: "datetime \<Rightarrow> DemoMode \<Rightarrow> real" where
  "get_elapsed_seconds now dm =
     (case clip_start_time dm of
        None \<Rightarrow> 0
      | Some t0 \<Rightarrow> dbl_value (total_seconds (now - t0)))"

text \<open>\<open>str.split(sep)\<close> for a separator of one character.\<close>

fun split_on :: "char \<Rightarrow> string \<Rightarrow> string list" where
  "split_on c [] = [[]]"
| "split_on c (x # xs) =
     (if x = c then [] # split_on c xs
      else (case split_on c xs of w # ws \<Rightarrow> (x # w) # ws | [] \<Rightarrow> [[x]]))"

text \<open>
  The test made on one key of the table. Python's \<open>float\<close> is a parameter (\<open>None\<close> when
  it raises \<open>ValueError\<close>). The tuple assignment raises unless \<open>split\<close> gives exactly two
  parts, and the chained comparison converts \<open>end\<close> only when \<open>float(start) <= seconds\<close>.
\<close>

definition in_time_range :: "(string \<Rightarrow> real option) \<Rightarrow> string \<Rightarrow> real \<Rightarrow> py_exc + bool" where
  "in_time_range float time_range seconds =
     (if CHR ''-'' \<in> set time_range then
        (case split_on CHR ''-'' time_range of
           [start, stop] \<Rightarrow>
             (case float start of
                None \<Rightarrow> Inl (ValueError start)
              | Some a \<Rightarrow>
                  if a \<le> seconds
                  then (case float stop of
                          None \<Rightarrow> Inl (ValueError stop)
                        | Some b \<Rightarrow> Inr (seconds < b))
                  else Inr False)
         | _ \<Rightarrow> Inl (ValueError time_range))
      else if time_range \<noteq> [] \<and> last time_range = CHR ''+'' then
        (case float (butlast time_range) of
           None \<Rightarrow> Inl (ValueError (butlast time_range))
         | Some a \<Rightarrow> Inr (seconds \<ge> a))
      else Inr False)"

text \<open>The loop over \<open>self.clip_responses.items()\<close>, in insertion order.\<close>

fun find_time_range ::
  "(string \<Rightarrow> real option) \<Rightarrow> (string \<times> 'd) list \<Rightarrow> real \<Rightarrow> py_exc + 'd option" where
  "find_time_range float [] seconds = Inr None"
| "find_time_range float ((time_range, data) # rest) seconds =
     (case in_time_range float time_range seconds of
        Inl e \<Rightarrow> Inl e
      | Inr True \<Rightarrow> Inr (Some data)
      | Inr False \<Rightarrow> find_time_range float rest seconds)"

definition get_response_for_timestamp ::
  "(string \<Rightarrow> real option) \<Rightarrow> datetime \<Rightarrow> real option \<Rightarrow> DemoMode
     \<Rightarrow> py_exc + (string \<times> string) list" where
  "get_response_for_timestamp float now seconds_arg dm =
     (let seconds = (case seconds_arg of None \<Rightarrow> get_elapsed_seconds now dm | Some s \<Rightarrow> s)
      in case find_time_range float (clip_responses dm) seconds of
           Inl e \<Rightarrow> Inl e
         | Inr (Some data) \<Rightarrow> Inr data
         | Inr None \<Rightarrow>
             (case map_of (fallback_responses dm) ''generic'' of
                None \<Rightarrow> Inl (KeyError ''generic'')
              | Some g \<Rightarrow>
                  Inr [(''scene'', ''General movie scene''),
                       (''emotion'', ''neutral''),
                       (''response'', g)]))"

record DemoController =
  demo_mode :: DemoMode
  is_demo :: bool

text \<open>
  \<open>DemoController.get_response\<close>. The final fallback reads the module constant
  \<open>FALLBACK_RESPONSES["scene_description"]\<close>.
\<close>

definition scene_description_text :: string where
  "scene_description_text =
     (case map_of FALLBACK_RESPONSES ''scene_description'' of Some s \<Rightarrow> s | None \<Rightarrow> [])"

definition generic_text :: string where
  "generic_text = (case map_of FALLBACK_RESPONSES ''generic'' of Some s \<Rightarrow> s | None \<Rightarrow> [])"

definition get_response ::
  "(string \<Rightarrow> real option) \<Rightarrow> datetime \<Rightarrow> pydict option \<Rightarrow> DemoController \<Rightarrow> py_exc + pydict" where
  "get_response float now azure_response dc =
     (case (case azure_response of
              None \<Rightarrow> None
            | Some r \<Rightarrow> if r \<noteq> [] \<and> truthy (dict_get r ''content'') then Some r else None) of
        Some r \<Rightarrow> Inr r
      | None \<Rightarrow>
          if is_demo_active (demo_mode dc) then
            (case get_response_for_timestamp float now None (demo_mode dc) of
               Inl e \<Rightarrow> Inl e
             | Inr data \<Rightarrow>
                 (case map_of data ''response'' of
                    None \<Rightarrow> Inl (KeyError ''response'')
                  | Some resp \<Rightarrow>
                      Inr [(''should_speak'', JBool True),
                           (''emotion'', JStr (case map_of data ''emotion'' of
                                                 None \<Rightarrow> ''neutral'' | Some e \<Rightarrow> e)),
                           (''content'', JStr resp),
                           (''source'', JStr ''demo_mode'')]))
          else
            Inr [(''should_speak'', JBool True),
                 (''emotion'', JStr ''calm''),
                 (''content'', JStr scene_description_text),
                 (''source'', JStr ''fallback'')])"

text \<open>
  Python's \<open>float\<close> on a string of one to fifteen ASCII digits: the number they denote
  in base ten, which a double holds exactly. Strings of any other shape are outside this
  function (\<open>None\<close>).
\<close>

definition digit_value :: "char \<Rightarrow> nat" where
  "digit_value c = of_char c - 48"

definition is_digit :: "char \<Rightarrow> bool" where
  "is_digit c = (48 \<le> (of_char c :: nat) \<and> (of_char c :: nat) \<le> 57)"

definition float_digits :: "string \<Rightarrow> real option" where
  "float_digits s =
     (if s \<noteq> [] \<and> length s \<le> 15 \<and> list_all is_digit s
      then Some (real (foldl (\<lambda>acc c. 10 * acc + digit_value c) 0 s))
      else None)"

text \<open>
  The words of the specification: the time interval a key registers. A key \<open>a-b\<close>
  registers \<open>[a, b)\<close>, a key \<open>a+\<close> registers \<open>[a, \<infinity>)\<close> (no upper end); any other key
  registers nothing.
\<close>

definition time_interval :: "(string \<Rightarrow> real option) \<Rightarrow> string \<Rightarrow> (real \<times> real option) option" where
  "time_interval float k =
     (if CHR ''-'' \<in> set k then
        (case split_on CHR ''-'' k of
           [a, b] \<Rightarrow> (case (float a, float b) of
                        (Some x, Some y) \<Rightarrow> Some (x, Some y)
                      | _ \<Rightarrow> None)
         | _ \<Rightarrow> None)
      else if k \<noteq> [] \<and> last k = CHR ''+'' then
        (case float (butlast k) of Some x \<Rightarrow> Some (x, None) | None \<Rightarrow> None)
      else None)"

definition interval_contains :: "(real \<times> real option) \<Rightarrow> real \<Rightarrow> bool" where
  "interval_contains iv s =
     (fst iv \<le> s \<and> (case snd iv of None \<Rightarrow> True | Some b \<Rightarrow> s < b))"

definition registered_at :: "(string \<Rightarrow> real option) \<Rightarrow> real \<Rightarrow> string \<times> 'd \<Rightarrow> bool" where
  "registered_at float s entry =
     (case time_interval float (fst entry) of
        None \<Rightarrow> False
      | Some iv \<Rightarrow> interval_contains iv s)"

text \<open>
  A key is well formed when it registers an interval, or has neither shape (no \<open>-\<close> in
  it and no \<open>+\<close> at its end), in which case it registers nothing.
\<close>

definition well_formed :: "(string \<Rightarrow> real option) \<Rightarrow> string \<Rightarrow> bool" where
  "well_formed float k =
     (time_interval float k \<noteq> None \<or> (CHR ''-'' \<notin> set k \<and> (k = [] \<or> last k \<noteq> CHR ''+'')))"

text \<open>
  End-to-end scenario 4 of the specification: a table that registers \<open>[30, 60)\<close> with
  response \<open>B\<close>, and a demo clip started at second 25. The table also holds a key that
  registers nothing and, last, a key that is not well formed.
\<close>

definition scenario4 :: DemoMode where
  "scenario4 = \<lparr>clip_responses = [(''intro'', [(''response'', ''I'')]),
                                  (''0-30'', [(''response'', ''A'')]),
                                  (''30-60'', [(''response'', ''B'')]),
                                  (''60-90-120'', [(''response'', ''C'')])],
                fallback_responses = FALLBACK_RESPONSES,
                clip_start_time = Some (ms 25000), is_demo_active = True\<rparr>"

text \<open>
  The words of the specification: the cycles in which the reasoning collaborator fails.
  It raises (a timeout included); or its payload is malformed: text that is not JSON, a
  JSON value that is not an object, or an object in which the text of the decision (the
  \<open>content\<close> when \<open>should_speak\<close> holds, else the \<open>reasoning\<close>, each with its default
  when missing) is neither a string nor a list.
\<close>

definition decision_text :: "pydict \<Rightarrow> json" where
  "decision_text d =
     (if truthy (case map_of d ''should_speak'' of None \<Rightarrow> JBool False | Some v \<Rightarrow> v)
      then (case map_of d ''content'' of None \<Rightarrow> JStr [] | Some v \<Rightarrow> v)
      else (case map_of d ''reasoning'' of
              None \<Rightarrow> JStr ''No reasoning provided'' | Some v \<Rightarrow> v))"

fun collaborator_failed :: "reasoner_outcome \<Rightarrow> bool" where
  "collaborator_failed (Raised msg) = True"
| "collaborator_failed NotJson = True"
| "collaborator_failed (Parsed (JDict d)) = (\<not> sliceable (decision_text d))"
| "collaborator_failed (Parsed j) = True"

section \<open>Properties of AudioMonitor\<close>

lemma observe_all_threshold [simp]: "threshold_db (observe_all m xs) = threshold_db m"
  by (induction m xs rule: observe_all.induct) (simp_all add: process_db_level_def Let_def)

lemma observe_all_quiet_duration [simp]:
  "quiet_duration_ms (observe_all m xs) = quiet_duration_ms m"
  by (induction m xs rule: observe_all.induct) (simp_all add: process_db_level_def Let_def)

lemma observe_all_current_db:
  "current_db (observe_all m xs) = (if xs = [] then current_db m else snd (last xs))"
  by (induction m xs rule: observe_all.induct) (simp_all add: process_db_level_def Let_def)

lemma observe_all_last_loud:
  "last_loud_time (observe_all m xs) =
     (if loud_samples (threshold_db m) xs = [] then last_loud_time m
      else Some (fst (last (loud_samples (threshold_db m) xs))))"
  by (induction m xs rule: observe_all.induct)
     (simp_all add: process_db_level_def Let_def loud_samples_def)

text \<open>
  What \<open>is_quiet\<close> computes after any sequence of samples observed by a fresh monitor:
  false when the level last observed exceeds the threshold; otherwise true when no sample
  ever exceeded the threshold, and else the comparison of the elapsed milliseconds, as
  the doubles give them, with \<open>quiet_duration_ms\<close>.
\<close>

lemma is_quiet_computes:
  "is_quiet now (observe_all (AudioMonitor_init thr q) samples) =
     (if current_level samples > thr then False
      else if loud_samples thr samples = [] then True
      else dbl_ge_int
             (dbl_mul (total_seconds (now - fst (last (loud_samples thr samples))))
                (dbl_of_int 1000)) q)"
proof -
  have thr: "threshold_db (AudioMonitor_init thr q) = thr"
    and q: "quiet_duration_ms (AudioMonitor_init thr q) = q"
    and init: "current_db (AudioMonitor_init thr q) = 0"
      "last_loud_time (AudioMonitor_init thr q) = None"
    by (simp_all add: AudioMonitor_init_def)
  show ?thesis
    by (simp add: is_quiet_def observe_all_current_db observe_all_last_loud
        thr q init current_level_def)
qed

lemma elapsed_ms_values:
  "dbl_mul (total_seconds 300000) (dbl_of_int 1000) = (5277655813324800, - 44)"
  "dbl_mul (total_seconds 600000) (dbl_of_int 1000) = (5277655813324800, - 43)"
  "dbl_mul (total_seconds 1001000) (dbl_of_int 1000) = (8804889115230207, - 43)"
  "dbl_mul (total_seconds 1001001) (dbl_of_int 1000) = (8804897911323230, - 43)"
  by code_simp+

lemma elapsed_ms_comparisons:
  "\<not> dbl_ge_int (5277655813324800, - 44) 500"
  "dbl_ge_int (5277655813324800, - 43) 500"
  "\<not> dbl_ge_int (8804889115230207, - 43) 1001"
  "dbl_ge_int (8804897911323230, - 43) 1001"
  by (simp_all add: dbl_ge_int_def)

text \<open>
  End-to-end scenario 2 of the specification: threshold 70, quiet duration 500 ms, level
  85 at time 0 and level 40 from then on; \<open>is_quiet\<close> is false after 300 ms and true
  after 600 ms.
\<close>

lemma is_quiet_scenario2:
  "\<not> is_quiet (ms 300) (observe_all (AudioMonitor_init 70 500) [(ms 0, 85), (ms 1, 40), (ms 299, 40)])
   \<and> is_quiet (ms 600) (observe_all (AudioMonitor_init 70 500) [(ms 0, 85), (ms 1, 40), (ms 599, 40)])"
  unfolding is_quiet_computes
  by (simp add: current_level_def loud_samples_def ms_def
      elapsed_ms_values elapsed_ms_comparisons)

text \<open>
  C3. The claim has \<open>is_quiet\<close> true exactly when at least \<open>quiet_duration_ms\<close>
  milliseconds have passed since the last sample above the threshold, as the docstring
  of \<open>is_quiet\<close> has it (quiet for at least \<open>quiet_duration_ms\<close>). The code breaks this at
  the boundary: with a threshold of 70 and a quiet duration of 1001 ms, after level 85 at
  time 0 and level 40 afterwards, exactly 1001 ms after the loud sample \<open>is_quiet\<close> is
  false, because \<open>total_seconds() * 1000\<close> comes out in doubles as 1000.9999999999999;
  one microsecond later it is true.
\<close>

theorem is_quiet_false_at_exact_duration:
  "current_db (observe_all (AudioMonitor_init 70 1001) [(ms 0, 85), (ms 1, 40)]) = 40
   \<and> last_loud_time (observe_all (AudioMonitor_init 70 1001) [(ms 0, 85), (ms 1, 40)]) = Some (ms 0)
   \<and> real_of_int (ms 1001 - ms 0) / 1000 = 1001
   \<and> dbl_mul (total_seconds (ms 1001 - ms 0)) (dbl_of_int 1000) = (8804889115230207, - 43)
   \<and> dbl_value (8804889115230207, - 43) < 1001
   \<and> \<not> is_quiet (ms 1001) (observe_all (AudioMonitor_init 70 1001) [(ms 0, 85), (ms 1, 40)])
   \<and> is_quiet (ms 1001 + 1) (observe_all (AudioMonitor_init 70 1001) [(ms 0, 85), (ms 1, 40)])"
proof -
  have st: "observe_all (AudioMonitor_init 70 1001) [(ms 0, 85), (ms 1, 40)]
      = \<lparr>threshold_db = 70, quiet_duration_ms = 1001, current_db = 40,
         db_history = [85, 40], last_loud_time = Some (ms 0), on_loud = False, on_quiet = False\<rparr>"
    by (simp add: AudioMonitor_init_def process_db_level_def deque_append_def Let_def)
  have v: "dbl_value (8804889115230207, - 43) < 1001"
    by (simp add: dbl_value_def)
  show ?thesis
    unfolding st using v
    by (simp add: is_quiet_def ms_def elapsed_ms_values elapsed_ms_comparisons)
qed

section \<open>Properties of the distress handler\<close>

lemma distress_events_cooldown [simp]:
  "distress_cooldown (fst (distress_events orch ts)) = distress_cooldown orch"
  by (induction orch ts rule: distress_events.induct)
     (auto simp: on_distress_def split: prod.splits option.splits if_splits)

lemma distress_events_spoken_after:
  "0 \<le> distress_cooldown orch \<Longrightarrow> t \<in> set (snd (distress_events orch ts)) \<Longrightarrow>
   t - last_distress_check orch \<ge> distress_cooldown orch"
proof (induction orch ts rule: distress_events.induct)
  case (1 orch)
  then show ?case by simp
next
  case (2 orch now rest)
  show ?case
  proof (cases "now - last_distress_check orch < distress_cooldown orch")
    case True
    with 2 show ?thesis by (simp add: on_distress_def)
  next
    case False
    let ?o = "orch\<lparr>last_distress_check := now\<rparr>"
    from False have step: "on_distress now orch = (?o, Some (comfort_message, ''empathetic''))"
      by (simp add: on_distress_def)
    from "2.prems"(2) step have "t = now \<or> t \<in> set (snd (distress_events ?o rest))"
      by (cases "distress_events ?o rest") auto
    then show ?thesis
    proof
      assume "t = now"
      with False show ?thesis by simp
    next
      assume "t \<in> set (snd (distress_events ?o rest))"
      with "2.IH"(2)[OF step [symmetric] refl] "2.prems"(1)
      have "t - now \<ge> distress_cooldown orch" by simp
      with False "2.prems"(1) show ?thesis by linarith
    qed
  qed
qed

lemma on_distress_cooldown [simp]:
  "distress_cooldown (fst (on_distress now orch)) = distress_cooldown orch"
  by (simp add: on_distress_def)

lemma distress_events_sorted:
  "0 \<le> distress_cooldown orch \<Longrightarrow>
   sorted_wrt (\<lambda>a b. b - a \<ge> distress_cooldown orch) (snd (distress_events orch ts))"
proof (induction orch ts rule: distress_events.induct)
  case (1 orch)
  then show ?case by simp
next
  case (2 orch now rest)
  show ?case
  proof (cases "now - last_distress_check orch < distress_cooldown orch")
    case True
    with 2 show ?thesis by (simp add: on_distress_def)
  next
    case False
    let ?o = "orch\<lparr>last_distress_check := now\<rparr>"
    from False have step: "on_distress now orch = (?o, Some (comfort_message, ''empathetic''))"
      by (simp add: on_distress_def)
    have tail: "sorted_wrt (\<lambda>a b. b - a \<ge> distress_cooldown orch) (snd (distress_events ?o rest))"
      using "2.IH"(2)[OF step [symmetric] refl] "2.prems" by simp
    have after: "\<forall>t \<in> set (snd (distress_events ?o rest)). t - now \<ge> distress_cooldown orch"
      using distress_events_spoken_after [of ?o _ rest] "2.prems" by simp
    show ?thesis
      using step tail after by (cases "distress_events ?o rest") simp
  qed
qed

text \<open>
  C10. With the cooldown of 30 seconds: a distress event reported less than 30 s after
  the previous distress response returns without speaking and leaves the orchestrator
  (its cooldown clock included) unchanged; and over any sequence of distress events, any
  two comfort responses are at least 30 s apart, the first one at least 30 s after the
  initial value of the clock.
\<close>

theorem distress_cooldown_respected:
  assumes "distress_cooldown orch = timedelta_seconds 30"
  shows "(now - last_distress_check orch < timedelta_seconds 30 \<longrightarrow>
            on_distress now orch = (orch, None))
       \<and> sorted_wrt (\<lambda>a b. b - a \<ge> timedelta_seconds 30) (snd (distress_events orch ts))
       \<and> (\<forall>t \<in> set (snd (distress_events orch ts)).
            t - last_distress_check orch \<ge> timedelta_seconds 30)"
proof -
  have nonneg: "0 \<le> distress_cooldown orch"
    using assms by (simp add: timedelta_seconds_def)
  show ?thesis
    using distress_events_sorted [OF nonneg, of ts] distress_events_spoken_after [OF nonneg, of _ ts]
      assms
    by (simp add: on_distress_def)
qed

theorem distress_cooldown_respected_witness:
  "on_distress (ms 29999) (Orchestrator_init 0) = (Orchestrator_init 0, None)
   \<and> snd (distress_events (Orchestrator_init 0)
            [ms 1000, ms 30000, ms 45000, ms 59999, ms 60000, ms 61000])
       = [ms 30000, ms 60000]
   \<and> sorted_wrt (\<lambda>a b. b - a \<ge> timedelta_seconds 30)
        (snd (distress_events (Orchestrator_init 0)
            [ms 1000, ms 30000, ms 45000, ms 59999, ms 60000, ms 61000]))"
proof -
  have cd: "distress_cooldown (Orchestrator_init 0) = timedelta_seconds 30"
    by (simp add: Orchestrator_init_def)
  have ev: "snd (distress_events (Orchestrator_init 0)
            [ms 1000, ms 30000, ms 45000, ms 59999, ms 60000, ms 61000]) = [ms 30000, ms 60000]"
    by (simp add: Orchestrator_init_def on_distress_def ms_def timedelta_seconds_def)
  show ?thesis
    using distress_cooldown_respected [OF cd, of "ms 29999"
        "[ms 1000, ms 30000, ms 45000, ms 59999, ms 60000, ms 61000]"] ev
    by (simp add: Orchestrator_init_def ms_def timedelta_seconds_def)
qed

section \<open>Properties of the keyframe detector\<close>

text \<open>
  C7. The first call of the detector (no frame remembered yet, as in a fresh
  \<open>VisionCapture\<close>) on a frame that converts to grayscale returns true and remembers
  that frame and the time of the call.
\<close>

theorem first_frame_is_keyframe:
  assumes "previous_frame_gray v = None" and "cvtColor f = Some g"
  shows "is_keyframe cvtColor ssim t f v
           = (Inr True, v\<lparr>previous_frame_gray := Some g, last_analysis_time := t\<rparr>)"
  using assms by (simp add: is_keyframe_def remember_def)

theorem first_frame_is_keyframe_witness:
  "previous_frame_gray (VisionCapture_init (95/100) 15 :: nat list VisionCapture) = None
   \<and> toy_cvtColor [1, 2, 3] = Some [1, 2, 3]
   \<and> is_keyframe toy_cvtColor toy_ssim 1000 [1, 2, 3] (VisionCapture_init (95/100) 15)
       = (Inr True, \<lparr>ssim_threshold = 95/100, max_interval_seconds = 15,
                     previous_frame_gray = Some [1, 2, 3], last_analysis_time = 1000\<rparr>)"
proof -
  have a: "previous_frame_gray (VisionCapture_init (95/100) 15 :: nat list VisionCapture) = None"
    by (simp add: VisionCapture_init_def)
  have b: "toy_cvtColor [1, 2, 3] = Some [1, 2, 3]"
    by (simp add: toy_cvtColor_def)
  show ?thesis
    using first_frame_is_keyframe [where v = "VisionCapture_init (95/100) 15 :: nat list VisionCapture"
        and cvtColor = toy_cvtColor and f = "[1, 2, 3]" and g = "[1, 2, 3]"
        and ssim = toy_ssim and t = 1000] a b
    by (simp add: VisionCapture_init_def)
qed

text \<open>
  C5. Whatever the value of \<open>max_interval_seconds\<close>: when at least that many seconds have
  passed since the last accepted keyframe, the call returns true whatever the similarity
  computation would give, and remembers the new frame and the time of the call.
\<close>

theorem time_trigger_is_keyframe:
  assumes "t - last_analysis_time v \<ge> max_interval_seconds v" and "cvtColor f = Some g"
  shows "is_keyframe cvtColor ssim t f v
           = (Inr True, v\<lparr>previous_frame_gray := Some g, last_analysis_time := t\<rparr>)"
  using assms by (simp add: is_keyframe_def remember_def split: option.splits)

theorem time_trigger_is_keyframe_witness:
  "is_keyframe toy_cvtColor toy_ssim 115 [1, 2, 3]
      \<lparr>ssim_threshold = 95/100, max_interval_seconds = 15,
       previous_frame_gray = Some [1, 2, 3], last_analysis_time = 100\<rparr>
     = (Inr True, \<lparr>ssim_threshold = 95/100, max_interval_seconds = 15,
                   previous_frame_gray = Some [1, 2, 3], last_analysis_time = 115\<rparr>)"
proof -
  let ?v = "\<lparr>ssim_threshold = 95/100, max_interval_seconds = 15,
       previous_frame_gray = Some [1, 2, 3 :: nat], last_analysis_time = 100\<rparr>"
  have a: "115 - last_analysis_time ?v \<ge> max_interval_seconds ?v" by simp
  have b: "toy_cvtColor [1, 2, 3] = Some [1, 2, 3]"
    by (simp add: toy_cvtColor_def)
  show ?thesis
    using time_trigger_is_keyframe [where v = ?v and t = 115 and cvtColor = toy_cvtColor
        and f = "[1, 2, 3]" and g = "[1, 2, 3]" and ssim = toy_ssim] a b
    by simp
qed

text \<open>
  C6. On a call that is not the first and comes before \<open>max_interval_seconds\<close> have
  passed, the verdict is true exactly when the similarity computation yields a score
  strictly below \<open>ssim_threshold\<close> (a failing computation gives no score and the verdict
  false); the frame and time are remembered exactly on a true verdict. In particular a
  frame identical to the remembered one gives the verdict false for every threshold up to
  1 (0.95 among them), the similarity of an image to itself being 1 where it is computed.
\<close>

theorem similarity_decides_keyframe:
  assumes "previous_frame_gray v = Some p"
    and "t - last_analysis_time v < max_interval_seconds v"
    and "cvtColor f = Some g"
  shows "is_keyframe cvtColor ssim t f v =
           (if \<exists>score. ssim p g = Some score \<and> score < ssim_threshold v
            then (Inr True, v\<lparr>previous_frame_gray := Some g, last_analysis_time := t\<rparr>)
            else (Inr False, v))
       \<and> (g = p \<and> ssim_threshold v \<le> 1 \<and> (\<forall>score. ssim p p = Some score \<longrightarrow> score = 1)
            \<longrightarrow> is_keyframe cvtColor ssim t f v = (Inr False, v))"
  using assms by (auto simp: is_keyframe_def remember_def split: option.splits)

theorem similarity_decides_keyframe_witness:
  "(let v0 = VisionCapture_init (95/100) 15 :: nat list VisionCapture;
        v1 = snd (is_keyframe toy_cvtColor toy_ssim 1000 [7, 7, 7] v0)
    in is_keyframe toy_cvtColor toy_ssim 1001 [7, 7, 7] v1 = (Inr False, v1)
       \<and> fst (is_keyframe toy_cvtColor toy_ssim 1001 [7, 8, 7] v1) = Inr True
       \<and> is_keyframe toy_cvtColor toy_ssim 1001 [7, 7] v1 = (Inr False, v1))"
proof -
  let ?v1 = "\<lparr>ssim_threshold = 95/100, max_interval_seconds = 15,
       previous_frame_gray = Some [7, 7, 7 :: nat], last_analysis_time = 1000\<rparr>"
  have v1: "snd (is_keyframe toy_cvtColor toy_ssim 1000 [7, 7, 7]
                  (VisionCapture_init (95/100) 15)) = ?v1"
    by (simp add: is_keyframe_def remember_def VisionCapture_init_def toy_cvtColor_def)
  have a: "previous_frame_gray ?v1 = Some [7, 7, 7]" by simp
  have b: "1001 - last_analysis_time ?v1 < max_interval_seconds ?v1" by simp
  have c1: "toy_cvtColor [7, 7, 7] = Some [7, 7, 7]" by (simp add: toy_cvtColor_def)
  have c2: "toy_cvtColor [7, 8, 7] = Some [7, 8, 7]" by (simp add: toy_cvtColor_def)
  have c3: "toy_cvtColor [7, 7] = Some [7, 7]" by (simp add: toy_cvtColor_def)
  show ?thesis
    unfolding Let_def v1
    using similarity_decides_keyframe [where v = ?v1 and p = "[7, 7, 7]" and t = 1001
        and cvtColor = toy_cvtColor and f = "[7, 7, 7]" and g = "[7, 7, 7]" and ssim = toy_ssim]
      similarity_decides_keyframe [where v = ?v1 and p = "[7, 7, 7]" and t = 1001
        and cvtColor = toy_cvtColor and f = "[7, 8, 7]" and g = "[7, 8, 7]" and ssim = toy_ssim]
      similarity_decides_keyframe [where v = ?v1 and p = "[7, 7, 7]" and t = 1001
        and cvtColor = toy_cvtColor and f = "[7, 7]" and g = "[7, 7]" and ssim = toy_ssim]
      a b c1 c2 c3
    by (simp add: toy_ssim_def)
qed

text \<open>
  C4. A call that does not return true (a false verdict, whether the similarity was high
  or its computation failed, and likewise a call that raises) leaves the detector's state
  as it was; so after a false verdict the same frame, evaluated again at any time before
  \<open>max_interval_seconds\<close> have passed, gives the same false verdict and the same state.
\<close>

theorem false_verdict_keeps_state:
  "(fst (is_keyframe cvtColor ssim t f v) \<noteq> Inr True \<longrightarrow>
      snd (is_keyframe cvtColor ssim t f v) = v)
   \<and> (fst (is_keyframe cvtColor ssim t f v) = Inr False \<longrightarrow>
        (\<forall>t'. t' - last_analysis_time v < max_interval_seconds v \<longrightarrow>
           is_keyframe cvtColor ssim t' f (snd (is_keyframe cvtColor ssim t f v)) = (Inr False, v)))"
  by (auto simp: is_keyframe_def remember_def Let_def split: option.splits if_splits)

theorem false_verdict_keeps_state_witness:
  "(let v1 = \<lparr>ssim_threshold = 95/100, max_interval_seconds = 15,
               previous_frame_gray = Some [7, 7, 7 :: nat], last_analysis_time = 1000\<rparr>
    in is_keyframe toy_cvtColor toy_ssim 1001 [7, 7, 7] v1 = (Inr False, v1)
     \<and> is_keyframe toy_cvtColor toy_ssim 1014 [7, 7, 7]
          (snd (is_keyframe toy_cvtColor toy_ssim 1001 [7, 7, 7] v1)) = (Inr False, v1)
     \<and> is_keyframe toy_cvtColor toy_ssim 1001 [7, 7] v1 = (Inr False, v1)
     \<and> is_keyframe toy_cvtColor toy_ssim 1001 [] v1 = (Inl CvtColorError, v1))"
proof -
  let ?v1 = "\<lparr>ssim_threshold = 95/100, max_interval_seconds = 15,
               previous_frame_gray = Some [7, 7, 7 :: nat], last_analysis_time = 1000\<rparr>"
  have r: "is_keyframe toy_cvtColor toy_ssim 1001 [7, 7, 7] ?v1 = (Inr False, ?v1)"
    by (simp add: is_keyframe_def toy_cvtColor_def toy_ssim_def)
  have b: "1014 - last_analysis_time ?v1 < max_interval_seconds ?v1" by simp
  show ?thesis
    using false_verdict_keeps_state [of toy_cvtColor toy_ssim 1001 "[7, 7, 7]" ?v1] r b
    by (simp add: Let_def is_keyframe_def toy_cvtColor_def toy_ssim_def)
qed

section \<open>Properties of the observation queue\<close>

lemma run_ops_fifo:
  "snd (run_ops orch ops) @ caption_queue (fst (run_ops orch ops)) = caption_queue orch @ pushed ops"
proof (induction orch ops rule: run_ops.induct)
  case (1 orch)
  show ?case by simp
next
  case (2 orch d ops)
  then show ?case by (simp add: vision_worker_put_def put_def)
next
  case (3 orch ops)
  show ?case
  proof (cases "caption_queue orch")
    case Nil
    then have step: "main_loop_step1 orch = (orch, None)"
      by (simp add: main_loop_step1_def get_nowait_def)
    with 3(1)[OF step [symmetric] refl] show ?thesis by simp
  next
    case (Cons d rest)
    let ?o = "orch\<lparr>latest_caption := Some (caption d), caption_queue := rest\<rparr>"
    from Cons have step: "main_loop_step1 orch = (?o, Some d)"
      by (simp add: main_loop_step1_def get_nowait_def)
    from 3(2)[OF step [symmetric] refl] step Cons show ?thesis
      by (cases "run_ops ?o ops") simp
  qed
qed

text \<open>
  C1, as the claim states it, fails: after two pushes with no pop in between the queue
  holds two unconsumed observations, and the next pop delivers the older one.
\<close>

theorem queue_holds_two_counterexample:
  "length (caption_queue (fst (run_ops (Orchestrator_init 0) [Push (obs ''older''), Push (obs ''newer'')]))) = 2
   \<and> latest_caption (fst (run_ops (Orchestrator_init 0)
         [Push (obs ''older''), Push (obs ''newer''), Pop])) = Some ''older''
   \<and> caption_queue (fst (run_ops (Orchestrator_init 0)
         [Push (obs ''older''), Push (obs ''newer''), Pop])) = [obs ''newer'']"
  by (simp add: Orchestrator_init_def vision_worker_put_def put_def main_loop_step1_def
      get_nowait_def obs_def)

text \<open>
  C1, amended. The queue is an unbounded first-in-first-out queue. A push never blocks
  and never discards: it lengthens the queue by one. For every sequence of pushes and
  pops, the observations consumed so far followed by those still queued are exactly the
  observations pushed, in the order pushed. A pop takes the oldest unconsumed
  observation; when exactly one is queued, that is the most recent one and the queue is
  empty afterwards.
\<close>

theorem queue_is_unbounded_fifo:
  "length (caption_queue (vision_worker_put d orch)) = Suc (length (caption_queue orch))
   \<and> snd (run_ops orch ops) @ caption_queue (fst (run_ops orch ops))
       = caption_queue orch @ pushed ops
   \<and> (\<forall>rest. caption_queue orch = d # rest \<longrightarrow>
        main_loop_step1 orch
          = (orch\<lparr>latest_caption := Some (caption d), caption_queue := rest\<rparr>, Some d))
   \<and> (caption_queue orch = [] \<longrightarrow> main_loop_step1 orch = (orch, None))"
  using run_ops_fifo [of orch ops]
  by (simp add: vision_worker_put_def put_def main_loop_step1_def get_nowait_def)

theorem queue_is_unbounded_fifo_witness:
  "snd (run_ops (Orchestrator_init 0) [Push (obs ''a''), Pop, Pop, Push (obs ''b''), Push (obs ''c''), Pop])
     = [obs ''a'', obs ''b'']
   \<and> caption_queue (fst (run_ops (Orchestrator_init 0)
        [Push (obs ''a''), Pop, Pop, Push (obs ''b''), Push (obs ''c''), Pop])) = [obs ''c'']
   \<and> main_loop_step1 (vision_worker_put (obs ''a'') (Orchestrator_init 0))
        = ((Orchestrator_init 0)\<lparr>latest_caption := Some ''a''\<rparr>, Some (obs ''a''))
   \<and> main_loop_step1 (Orchestrator_init 0) = (Orchestrator_init 0, None)"
proof -
  let ?o = "vision_worker_put (obs ''a'') (Orchestrator_init 0)"
  have q: "caption_queue ?o = [obs ''a'']"
    by (simp add: vision_worker_put_def put_def Orchestrator_init_def)
  have e: "caption_queue (Orchestrator_init 0) = []"
    by (simp add: Orchestrator_init_def)
  have r: "snd (run_ops (Orchestrator_init 0)
      [Push (obs ''a''), Pop, Pop, Push (obs ''b''), Push (obs ''c''), Pop]) = [obs ''a'', obs ''b'']"
    by (simp add: Orchestrator_init_def vision_worker_put_def put_def main_loop_step1_def
        get_nowait_def)
  show ?thesis
    using queue_is_unbounded_fifo [of "obs ''a''" ?o "[]"]
      queue_is_unbounded_fifo [of "obs ''a''" "Orchestrator_init 0"
        "[Push (obs ''a''), Pop, Pop, Push (obs ''b''), Push (obs ''c''), Pop]"] q e r
    by (simp add: Orchestrator_init_def vision_worker_put_def put_def obs_def)
qed

section \<open>Properties of analyze\_context\<close>

lemma map_of_setdefault:
  "map_of (setdefault k v d) k' =
     (if k' = k then Some (case map_of d k of None \<Rightarrow> v | Some w \<Rightarrow> w) else map_of d k')"
  by (auto simp: setdefault_def map_add_def split: option.splits)

lemma map_of_setitem: "map_of (setitem k v d) k' = (if k' = k then Some v else map_of d k')"
  by (simp add: setitem_def update_conv')

lemma validate_fields_should_speak:
  "map_of (validate_fields dep now d) ''should_speak''
     = Some (case map_of d ''should_speak'' of None \<Rightarrow> JBool False | Some v \<Rightarrow> v)"
  by (simp add: validate_fields_def map_of_setdefault map_of_setitem)

lemma validate_fields_emotion:
  "map_of (validate_fields dep now d) ''emotion''
     = Some (case map_of d ''emotion'' of None \<Rightarrow> JStr ''neutral'' | Some v \<Rightarrow> v)"
  by (simp add: validate_fields_def map_of_setdefault map_of_setitem)

lemma validate_fields_content:
  "map_of (validate_fields dep now d) ''content''
     = Some (case map_of d ''content'' of None \<Rightarrow> JStr [] | Some v \<Rightarrow> v)"
  by (simp add: validate_fields_def map_of_setdefault map_of_setitem)

lemma validate_fields_reasoning:
  "map_of (validate_fields dep now d) ''reasoning''
     = Some (case map_of d ''reasoning'' of None \<Rightarrow> JStr ''No reasoning provided'' | Some v \<Rightarrow> v)"
  by (simp add: validate_fields_def map_of_setdefault map_of_setitem)

lemma validate_fields_metadata:
  "map_of (validate_fields dep now d) ''metadata''
     = Some (JDict [(''azure_service'', JStr ''Azure OpenAI Service (GPT-4o)''),
                    (''timestamp'', JStr now), (''model'', JStr dep)])"
  by (simp add: validate_fields_def map_of_setitem)

lemma validate_fields_other:
  "k \<notin> {''should_speak'', ''emotion'', ''content'', ''reasoning'', ''metadata''} \<Longrightarrow>
   map_of (validate_fields dep now d) k = map_of d k"
  by (simp add: validate_fields_def map_of_setdefault map_of_setitem)

lemma log_decision_strings:
  assumes "\<forall>v. map_of d ''content'' = Some v \<longrightarrow> (\<exists>s. v = JStr s)"
    and "\<forall>v. map_of d ''reasoning'' = Some v \<longrightarrow> (\<exists>s. v = JStr s)"
  shows "log_decision (validate_fields dep now d) = None"
proof -
  have c: "\<exists>s. map_of (validate_fields dep now d) ''content'' = Some (JStr s)"
    using assms(1) by (auto simp: validate_fields_content split: option.splits)
  have r: "\<exists>s. map_of (validate_fields dep now d) ''reasoning'' = Some (JStr s)"
    using assms(2) by (auto simp: validate_fields_reasoning split: option.splits)
  from c r show ?thesis
    by (auto simp: log_decision_def getitem_def validate_fields_should_speak)
qed

text \<open>
  C8, as the claim states it, fails: for an answer with no field at all the reasoning
  is filled with the text \<open>No reasoning provided\<close>, which is not \<open>no reasoning\<close>.
\<close>

theorem default_reasoning_counterexample:
  "map_of (analyze_context ''gpt-4o'' ''2026-01-01T00:00:00'' (\<lambda>e. []) (Parsed (JDict [])))
       ''reasoning'' = Some (JStr ''No reasoning provided'')
   \<and> map_of (analyze_context ''gpt-4o'' ''2026-01-01T00:00:00'' (\<lambda>e. []) (Parsed (JDict [])))
       ''reasoning'' \<noteq> Some (JStr ''no reasoning'')"
  by (simp add: analyze_context_def validate_fields_def setdefault_def setitem_def
      log_decision_def getitem_def)

text \<open>
  C8, amended. When the collaborator's answer parses to an object whose \<open>content\<close> and
  \<open>reasoning\<close> fields, where present, are strings, \<open>analyze_context\<close> returns that object
  (not the fallback) with each missing field filled with its default:
  \<open>should_speak\<close> false, \<open>emotion\<close> neutral, \<open>content\<close> empty,
  \<open>reasoning\<close> \<open>No reasoning provided\<close>; fields that are present keep their values, a
  \<open>metadata\<close> entry is set, and every other key is as the collaborator gave it.
\<close>

theorem analyze_context_fills_defaults:
  assumes "\<forall>v. map_of d ''content'' = Some v \<longrightarrow> (\<exists>s. v = JStr s)"
    and "\<forall>v. map_of d ''reasoning'' = Some v \<longrightarrow> (\<exists>s. v = JStr s)"
  shows "analyze_context dep now ex (Parsed (JDict d)) = validate_fields dep now d
     \<and> map_of (analyze_context dep now ex (Parsed (JDict d))) ''should_speak''
         = Some (case map_of d ''should_speak'' of None \<Rightarrow> JBool False | Some v \<Rightarrow> v)
     \<and> map_of (analyze_context dep now ex (Parsed (JDict d))) ''emotion''
         = Some (case map_of d ''emotion'' of None \<Rightarrow> JStr ''neutral'' | Some v \<Rightarrow> v)
     \<and> map_of (analyze_context dep now ex (Parsed (JDict d))) ''content''
         = Some (case map_of d ''content'' of None \<Rightarrow> JStr [] | Some v \<Rightarrow> v)
     \<and> map_of (analyze_context dep now ex (Parsed (JDict d))) ''reasoning''
         = Some (case map_of d ''reasoning'' of
                   None \<Rightarrow> JStr ''No reasoning provided'' | Some v \<Rightarrow> v)
     \<and> map_of (analyze_context dep now ex (Parsed (JDict d))) ''metadata''
         = Some (JDict [(''azure_service'', JStr ''Azure OpenAI Service (GPT-4o)''),
                        (''timestamp'', JStr now), (''model'', JStr dep)])
     \<and> (\<forall>k. k \<notin> {''should_speak'', ''emotion'', ''content'', ''reasoning'', ''metadata''} \<longrightarrow>
            map_of (analyze_context dep now ex (Parsed (JDict d))) k = map_of d k)"
proof -
  have eq: "analyze_context dep now ex (Parsed (JDict d)) = validate_fields dep now d"
    using log_decision_strings [OF assms] by (simp add: analyze_context_def)
  show ?thesis
    unfolding eq
    using validate_fields_should_speak [of dep now d] validate_fields_emotion [of dep now d]
      validate_fields_content [of dep now d] validate_fields_reasoning [of dep now d]
      validate_fields_metadata [of dep now d] validate_fields_other [of _ dep now d]
    by simp
qed

theorem analyze_context_fills_defaults_witness:
  "analyze_context ''gpt-4o'' ''2026-01-01T00:00:00'' (\<lambda>e. [])
      (Parsed (JDict [(''content'', JStr ''What a lovely scene.''), (''should_speak'', JBool True)]))
     = [(''content'', JStr ''What a lovely scene.''),
        (''should_speak'', JBool True),
        (''emotion'', JStr ''neutral''),
        (''reasoning'', JStr ''No reasoning provided''),
        (''metadata'', JDict [(''azure_service'', JStr ''Azure OpenAI Service (GPT-4o)''),
                              (''timestamp'', JStr ''2026-01-01T00:00:00''),
                              (''model'', JStr ''gpt-4o'')])]"
proof -
  let ?d = "[(''content'', JStr ''What a lovely scene.''), (''should_speak'', JBool True)]"
  have a: "\<forall>v. map_of ?d ''content'' = Some v \<longrightarrow> (\<exists>s. v = JStr s)" by simp
  have b: "\<forall>v. map_of ?d ''reasoning'' = Some v \<longrightarrow> (\<exists>s. v = JStr s)" by simp
  show ?thesis
    using analyze_context_fills_defaults [OF a b, of "''gpt-4o''" "''2026-01-01T00:00:00''" "\<lambda>e. []"]
    by (simp add: validate_fields_def setdefault_def setitem_def)
qed

section \<open>Properties of the timestamp lookup\<close>

lemma in_time_range_interval:
  "time_interval float k = Some iv \<Longrightarrow> in_time_range float k s = Inr (interval_contains iv s)"
  by (auto simp: time_interval_def in_time_range_def interval_contains_def
      split: if_splits list.splits option.splits)

lemma in_time_range_well_formed:
  "well_formed float k \<Longrightarrow> in_time_range float k s = Inr (registered_at float s (k, d))"
proof (cases "time_interval float k")
  case (Some iv)
  then show ?thesis
    using in_time_range_interval [OF Some, of s] by (simp add: registered_at_def)
next
  case None
  assume "well_formed float k"
  with None have "CHR ''-'' \<notin> set k" "k = [] \<or> last k \<noteq> CHR ''+''"
    by (auto simp: well_formed_def)
  with None show ?thesis
    by (auto simp: in_time_range_def registered_at_def)
qed

lemma find_time_range_skip:
  "\<forall>e \<in> set pre. well_formed float (fst e) \<and> \<not> registered_at float s e \<Longrightarrow>
   find_time_range float (pre @ rest) s = find_time_range float rest s"
proof (induction pre)
  case Nil
  show ?case by simp
next
  case (Cons e pre)
  obtain k d where e: "e = (k, d)" by (cases e)
  from Cons.prems e have wf: "well_formed float k" and no: "\<not> registered_at float s (k, d)"
    by simp_all
  from Cons.prems have rest: "\<forall>e \<in> set pre. well_formed float (fst e) \<and> \<not> registered_at float s e"
    by simp
  show ?case
    using Cons.IH [OF rest] in_time_range_well_formed [OF wf, of s d] no e by simp
qed

lemma find_time_range_find:
  "\<forall>e \<in> set tbl. well_formed float (fst e) \<Longrightarrow>
   find_time_range float tbl s = Inr (map_option snd (find (registered_at float s) tbl))"
proof (induction tbl)
  case Nil
  show ?case by simp
next
  case (Cons e tbl)
  obtain k d where e: "e = (k, d)" by (cases e)
  from Cons.prems e have wf: "well_formed float k" by simp
  from Cons.prems have rest: "\<forall>e \<in> set tbl. well_formed float (fst e)" by simp
  show ?case
    using Cons.IH [OF rest] in_time_range_well_formed [OF wf, of s d] e by simp
qed

text \<open>
  C9. The elapsed seconds are the argument or, when none is given, the seconds between
  the start of the demo clip and now (0 when no clip was started). The lookup returns
  the data of the registered entry whose interval contains the elapsed seconds: the first
  such entry in the order of registration, the keys registered before it being well
  formed, whatever comes after it. When every key is well formed and no registered
  interval contains the elapsed seconds, it returns the generic response: the scene
  \<open>General movie scene\<close>, the emotion \<open>neutral\<close> and the \<open>generic\<close> fallback text.
\<close>

theorem timestamp_lookup:
  assumes "seconds = (case seconds_arg of
                        Some x \<Rightarrow> x
                      | None \<Rightarrow> (case clip_start_time dm of
                                   None \<Rightarrow> 0
                                 | Some t0 \<Rightarrow> dbl_value (dbl_div_int (now - t0) 1000000)))"
  shows "(\<forall>pre k data post iv.
            clip_responses dm = pre @ (k, data) # post
            \<and> (\<forall>e \<in> set pre. well_formed float (fst e) \<and> \<not> registered_at float seconds e)
            \<and> time_interval float k = Some iv \<and> interval_contains iv seconds
            \<longrightarrow> get_response_for_timestamp float now seconds_arg dm = Inr data)
       \<and> (\<forall>g. (\<forall>e \<in> set (clip_responses dm).
                   well_formed float (fst e) \<and> \<not> registered_at float seconds e)
               \<and> map_of (fallback_responses dm) ''generic'' = Some g
            \<longrightarrow> get_response_for_timestamp float now seconds_arg dm
                  = Inr [(''scene'', ''General movie scene''),
                         (''emotion'', ''neutral''),
                         (''response'', g)])"
proof -
  have s: "(case seconds_arg of None \<Rightarrow> get_elapsed_seconds now dm | Some x \<Rightarrow> x) = seconds"
    using assms by (simp add: get_elapsed_seconds_def total_seconds_def split: option.splits)
  have found: "get_response_for_timestamp float now seconds_arg dm = Inr data"
    if tbl: "clip_responses dm = pre @ (k, data) # post"
      and pre: "\<forall>e \<in> set pre. well_formed float (fst e) \<and> \<not> registered_at float seconds e"
      and iv: "time_interval float k = Some iv" "interval_contains iv seconds"
    for pre k data post iv
  proof -
    have "find_time_range float (clip_responses dm) seconds = Inr (Some data)"
      using find_time_range_skip [OF pre, of "(k, data) # post"]
        in_time_range_interval [OF iv(1), of seconds] iv(2) tbl
      by simp
    then show ?thesis
      by (simp add: get_response_for_timestamp_def s)
  qed
  have generic: "get_response_for_timestamp float now seconds_arg dm
                  = Inr [(''scene'', ''General movie scene''),
                         (''emotion'', ''neutral''),
                         (''response'', g)]"
    if all: "\<forall>e \<in> set (clip_responses dm).
                   well_formed float (fst e) \<and> \<not> registered_at float seconds e"
      and g: "map_of (fallback_responses dm) ''generic'' = Some g"
    for g
  proof -
    have "find_time_range float (clip_responses dm) seconds = Inr None"
      using find_time_range_skip [OF all, of "[]"] by simp
    then show ?thesis
      using g by (simp add: get_response_for_timestamp_def s)
  qed
  show ?thesis
    using found generic by blast
qed

lemma float_digits_values:
  "float_digits ''0'' = Some 0" "float_digits ''10'' = Some 10" "float_digits ''30'' = Some 30"
  "float_digits ''60'' = Some 60" "float_digits ''120'' = Some 120"
  "float_digits ''180'' = Some 180" "float_digits ''240'' = Some 240"
  by (simp_all add: float_digits_def is_digit_def digit_value_def)

lemma elapsed_seconds_values:
  "dbl_div_int 45000000 1000000 = (6333186975989760, - 47)"
  "dbl_value (6333186975989760, - 47) = 45"
  by code_simp+

theorem timestamp_lookup_witness:
  "get_response_for_timestamp float_digits (ms 70000) None scenario4 = Inr [(''response'', ''B'')]
   \<and> get_response_for_timestamp float_digits (ms 70000) (Some 45) scenario4
       = Inr [(''response'', ''B'')]
   \<and> get_response_for_timestamp float_digits (ms 70000) None (stop_demo_clip scenario4)
       = Inr [(''response'', ''A'')]
   \<and> get_response_for_timestamp float_digits (ms 70000) (Some 60)
        (scenario4\<lparr>clip_responses := [(''intro'', [(''response'', ''I'')]),
                                      (''0-30'', [(''response'', ''A'')]),
                                      (''30-60'', [(''response'', ''B'')])]\<rparr>)
       = Inr [(''scene'', ''General movie scene''),
              (''emotion'', ''neutral''),
              (''response'', ''That's an interesting scene. Let me know if you'd like me to '' @
                             ''describe anything specific.'')]"
proof -
  let ?pre = "[(''intro'', [(''response'', ''I'')]), (''0-30'', [(''response'', ''A'')])]"
  let ?post = "[(''60-90-120'', [(''response'', ''C'')])]"
  let ?short = "scenario4\<lparr>clip_responses := [(''intro'', [(''response'', ''I'')]),
                                      (''0-30'', [(''response'', ''A'')]),
                                      (''30-60'', [(''response'', ''B'')])]\<rparr>"
  have tbl: "clip_responses scenario4 = ?pre @ (''30-60'', [(''response'', ''B'')]) # ?post"
    by (simp add: scenario4_def)
  have tbl0: "clip_responses (stop_demo_clip scenario4)
      = [(''intro'', [(''response'', ''I'')])] @ (''0-30'', [(''response'', ''A'')])
          # ((''30-60'', [(''response'', ''B'')]) # ?post)"
    by (simp add: scenario4_def stop_demo_clip_def)
  have iv: "time_interval float_digits ''0-30'' = Some (0, Some 30)"
    "time_interval float_digits ''30-60'' = Some (30, Some 60)"
    "time_interval float_digits ''intro'' = None"
    by (simp_all add: time_interval_def float_digits_values)
  have wf: "well_formed float_digits ''intro''" "well_formed float_digits ''0-30''"
    "well_formed float_digits ''30-60''"
    by (simp_all add: well_formed_def iv)
  have el: "45 = (case None :: real option of
                    Some x \<Rightarrow> x
                  | None \<Rightarrow> (case clip_start_time scenario4 of
                               None \<Rightarrow> 0
                             | Some t0 \<Rightarrow> dbl_value (dbl_div_int (ms 70000 - t0) 1000000)))"
    by (simp add: scenario4_def ms_def elapsed_seconds_values)
  have el1: "45 = (case Some 45 of
                    Some x \<Rightarrow> x
                  | None \<Rightarrow> (case clip_start_time scenario4 of
                               None \<Rightarrow> 0
                             | Some t0 \<Rightarrow> dbl_value (dbl_div_int (ms 70000 - t0) 1000000)))"
    by simp
  have el0: "0 = (case None :: real option of
                    Some x \<Rightarrow> x
                  | None \<Rightarrow> (case clip_start_time (stop_demo_clip scenario4) of
                               None \<Rightarrow> 0
                             | Some t0 \<Rightarrow> dbl_value (dbl_div_int (ms 70000 - t0) 1000000)))"
    by (simp add: stop_demo_clip_def)
  have el2: "60 = (case Some 60 of
                    Some x \<Rightarrow> x
                  | None \<Rightarrow> (case clip_start_time ?short of
                               None \<Rightarrow> 0
                             | Some t0 \<Rightarrow> dbl_value (dbl_div_int (ms 70000 - t0) 1000000)))"
    by simp
  have g: "map_of (fallback_responses ?short) ''generic''
      = Some (''That's an interesting scene. Let me know if you'd like me to '' @
              ''describe anything specific.'')"
    by (simp add: scenario4_def FALLBACK_RESPONSES_def)
  have pre: "\<forall>e \<in> set ?pre. well_formed float_digits (fst e) \<and> \<not> registered_at float_digits 45 e"
    by (simp add: wf registered_at_def iv interval_contains_def)
  have pre0: "\<forall>e \<in> set [(''intro'', [(''response'', ''I'')])].
      well_formed float_digits (fst e) \<and> \<not> registered_at float_digits 0 e"
    by (simp add: wf registered_at_def iv)
  have all: "\<forall>e \<in> set (clip_responses ?short).
      well_formed float_digits (fst e) \<and> \<not> registered_at float_digits 60 e"
    by (simp add: wf registered_at_def iv interval_contains_def)
  have c45: "interval_contains (30, Some 60) 45" and c0: "interval_contains (0, Some 30) 0"
    by (simp_all add: interval_contains_def)
  have r1: "get_response_for_timestamp float_digits (ms 70000) None scenario4
      = Inr [(''response'', ''B'')]"
    using timestamp_lookup [OF el, of float_digits] tbl pre iv(2) c45 by blast
  have r2: "get_response_for_timestamp float_digits (ms 70000) (Some 45) scenario4
      = Inr [(''response'', ''B'')]"
    using timestamp_lookup [OF el1, of float_digits] tbl pre iv(2) c45 by blast
  have r3: "get_response_for_timestamp float_digits (ms 70000) None (stop_demo_clip scenario4)
      = Inr [(''response'', ''A'')]"
    using timestamp_lookup [OF el0, of float_digits] tbl0 pre0 iv(1) c0 by blast
  have r4: "get_response_for_timestamp float_digits (ms 70000) (Some 60) ?short
      = Inr [(''scene'', ''General movie scene''),
              (''emotion'', ''neutral''),
              (''response'', ''That's an interesting scene. Let me know if you'd like me to '' @
                             ''describe anything specific.'')]"
    using timestamp_lookup [OF el2, of float_digits] all g by blast
  from r1 r2 r3 r4 show ?thesis by blast
qed

section \<open>Properties of the fallback path\<close>

lemma fallback_response_fields:
  "map_of (fallback_response now_iso reason) ''should_speak'' = Some (JBool False)"
  "map_of (fallback_response now_iso reason) ''emotion'' = Some (JStr ''neutral'')"
  "map_of (fallback_response now_iso reason) ''content'' = Some (JStr [])"
  "map_of (fallback_response now_iso reason) ''reasoning''
     = Some (JStr (''Fallback due to error: '' @ reason))"
  "fallback_response now_iso reason \<noteq> []"
  by (simp_all add: fallback_response_def)

lemma log_decision_text:
  "log_decision (validate_fields dep now d)
     = (if sliceable (decision_text d) then None else Some (TypeError (decision_text d)))"
  by (simp add: log_decision_def getitem_def decision_text_def validate_fields_should_speak
      validate_fields_content validate_fields_reasoning)

lemma failed_gives_fallback:
  "collaborator_failed outcome \<Longrightarrow>
   \<exists>reason. analyze_context dep now_iso ex outcome = fallback_response now_iso reason"
proof (cases outcome)
  case (Raised msg)
  then show ?thesis by (auto simp: analyze_context_def)
next
  case NotJson
  then show ?thesis by (auto simp: analyze_context_def)
next
  case (Parsed j)
  assume failed: "collaborator_failed outcome"
  show ?thesis
  proof (cases j)
    case (JDict d)
    with Parsed failed have "\<not> sliceable (decision_text d)" by simp
    with Parsed JDict show ?thesis
      by (auto simp: analyze_context_def log_decision_text)
  qed (use Parsed in \<open>auto simp: analyze_context_def\<close>)
qed

lemma demo_keys_register:
  assumes "\<forall>s v. float_digits s = Some v \<longrightarrow> float s = Some v"
  shows "\<forall>e \<in> set DEMO_CLIP_RESPONSES. well_formed float (fst e)"
proof -
  have f: "float ''0'' = Some 0" "float ''10'' = Some 10" "float ''30'' = Some 30"
    "float ''60'' = Some 60" "float ''120'' = Some 120" "float ''180'' = Some 180"
    "float ''240'' = Some 240"
    using assms float_digits_values by blast+
  show ?thesis
    by (simp add: DEMO_CLIP_RESPONSES_def well_formed_def time_interval_def f)
qed

lemma demo_responses_nonempty:
  "\<forall>e \<in> set DEMO_CLIP_RESPONSES. \<exists>c. map_of (snd e) ''response'' = Some c \<and> c \<noteq> []"
  by (simp add: DEMO_CLIP_RESPONSES_def)

lemma fallback_texts:
  "map_of FALLBACK_RESPONSES ''generic'' = Some generic_text"
  "generic_text \<noteq> []" "scene_description_text \<noteq> []"
  "scene_description_text \<noteq> generic_text"
  by (simp_all add: FALLBACK_RESPONSES_def generic_text_def scene_description_text_def)

lemma demo_lookup_nonempty:
  assumes "clip_responses dm = DEMO_CLIP_RESPONSES"
    and "fallback_responses dm = FALLBACK_RESPONSES"
    and "\<forall>s v. float_digits s = Some v \<longrightarrow> float s = Some v"
  shows "\<exists>data c. get_response_for_timestamp float now seconds_arg dm = Inr data
           \<and> map_of data ''response'' = Some c \<and> c \<noteq> []"
proof -
  let ?s = "case seconds_arg of None \<Rightarrow> get_elapsed_seconds now dm | Some s \<Rightarrow> s"
  have wf: "\<forall>e \<in> set (clip_responses dm). well_formed float (fst e)"
    using demo_keys_register [OF assms(3)] assms(1) by simp
  have g: "map_of (fallback_responses dm) ''generic'' = Some generic_text"
    using assms(2) fallback_texts(1) by simp
  have look: "get_response_for_timestamp float now seconds_arg dm =
      Inr (case find (registered_at float ?s) (clip_responses dm) of
             Some entry \<Rightarrow> snd entry
           | None \<Rightarrow> [(''scene'', ''General movie scene''), (''emotion'', ''neutral''),
                       (''response'', generic_text)])"
    using find_time_range_find [OF wf] g
    by (simp add: get_response_for_timestamp_def Let_def split: option.splits)
  show ?thesis
  proof (cases "find (registered_at float ?s) (clip_responses dm)")
    case None
    with look fallback_texts(2) show ?thesis by simp
  next
    case (Some entry)
    then have "entry \<in> set DEMO_CLIP_RESPONSES"
      using assms(1) by (auto simp: find_Some_iff in_set_conv_nth)
    with demo_responses_nonempty obtain c where "map_of (snd entry) ''response'' = Some c" "c \<noteq> []"
      by blast
    with look Some show ?thesis by simp
  qed
qed

text \<open>
  C2, as the claim states it, fails: when the collaborator times out,
  \<open>analyze_context\<close> returns a decision with empty content and the orchestration loop
  speaks nothing for it; and \<open>DemoController.get_response\<close>, given that decision outside
  the demo timeline, answers with the \<open>scene_description\<close> text, which is not the text of
  the \<open>generic\<close> category.
\<close>

theorem fallback_content_counterexample:
  "map_of (analyze_context ''gpt-4o'' ''2026-01-01T00:00:00'' (\<lambda>e. []) (Raised ''Request timed out.''))
       ''content'' = Some (JStr [])
   \<and> main_loop_step4
        (analyze_context ''gpt-4o'' ''2026-01-01T00:00:00'' (\<lambda>e. []) (Raised ''Request timed out.''))
       = Inr None
   \<and> get_response float_digits 0
        (Some (analyze_context ''gpt-4o'' ''2026-01-01T00:00:00'' (\<lambda>e. []) (Raised ''Request timed out.'')))
        \<lparr>demo_mode = DemoMode_init, is_demo = False\<rparr>
       = Inr [(''should_speak'', JBool True), (''emotion'', JStr ''calm''),
              (''content'', JStr scene_description_text), (''source'', JStr ''fallback'')]
   \<and> scene_description_text \<noteq> generic_text"
  using fallback_texts(4)
  by (simp add: analyze_context_def fallback_response_def main_loop_step4_def dict_get_def
      get_response_def DemoMode_init_def)

text \<open>
  C2, amended. In every cognition cycle in which the reasoning collaborator times out or
  raises, or returns a malformed payload (text that is not JSON, a JSON value that is not
  an object, or an object whose decision text is neither a string nor a list),
  \<open>analyze_context\<close> returns the fallback decision with \<open>should_speak\<close> false, \<open>emotion\<close>
  neutral and empty content, for which the orchestration loop speaks nothing.
  \<open>DemoController.get_response\<close>, given that decision (with the shipped response
  tables), returns a decision with \<open>should_speak\<close> true and non-empty content: the
  \<open>scene_description\<close> fallback text outside the demo timeline, and the response found by
  the timestamp lookup while the demo timeline is active.
\<close>

theorem fallback_path:
  assumes "collaborator_failed outcome"
    and "clip_responses (demo_mode dc) = DEMO_CLIP_RESPONSES"
    and "fallback_responses (demo_mode dc) = FALLBACK_RESPONSES"
    and "\<forall>s v. float_digits s = Some v \<longrightarrow> float s = Some v"
  shows "map_of (analyze_context dep now_iso ex outcome) ''should_speak'' = Some (JBool False)
     \<and> map_of (analyze_context dep now_iso ex outcome) ''emotion'' = Some (JStr ''neutral'')
     \<and> map_of (analyze_context dep now_iso ex outcome) ''content'' = Some (JStr [])
     \<and> main_loop_step4 (analyze_context dep now_iso ex outcome) = Inr None
     \<and> (\<exists>r c. get_response float now (Some (analyze_context dep now_iso ex outcome)) dc = Inr r
            \<and> map_of r ''should_speak'' = Some (JBool True)
            \<and> map_of r ''content'' = Some (JStr c) \<and> c \<noteq> []
            \<and> (if is_demo_active (demo_mode dc)
                then \<exists>data. get_response_for_timestamp float now None (demo_mode dc) = Inr data
                       \<and> map_of data ''response'' = Some c
                else c = scene_description_text))"
proof -
  obtain reason where fb: "analyze_context dep now_iso ex outcome = fallback_response now_iso reason"
    using failed_gives_fallback [OF assms(1)] by blast
  have silent: "main_loop_step4 (fallback_response now_iso reason) = Inr None"
    by (simp add: main_loop_step4_def dict_get_def fallback_response_fields)
  have no_content: "\<not> truthy (dict_get (fallback_response now_iso reason) ''content'')"
    by (simp add: dict_get_def fallback_response_fields)
  have resp: "\<exists>r c. get_response float now (Some (fallback_response now_iso reason)) dc = Inr r
            \<and> map_of r ''should_speak'' = Some (JBool True)
            \<and> map_of r ''content'' = Some (JStr c) \<and> c \<noteq> []
            \<and> (if is_demo_active (demo_mode dc)
                then \<exists>data. get_response_for_timestamp float now None (demo_mode dc) = Inr data
                       \<and> map_of data ''response'' = Some c
                else c = scene_description_text)"
  proof (cases "is_demo_active (demo_mode dc)")
    case False
    with no_content fallback_texts(3) show ?thesis
      by (simp add: get_response_def)
  next
    case True
    from demo_lookup_nonempty [OF assms(2) assms(3) assms(4), of now None]
    obtain data c where d: "get_response_for_timestamp float now None (demo_mode dc) = Inr data"
      "map_of data ''response'' = Some c" "c \<noteq> []" by blast
    with True no_content show ?thesis
      by (simp add: get_response_def)
  qed
  show ?thesis
    unfolding fb using silent resp by (simp add: fallback_response_fields)
qed

theorem fallback_path_witness:
  "analyze_context ''gpt-4o'' ''2026-01-01T00:00:00'' (\<lambda>e. ''not subscriptable'')
      (Parsed (JDict [(''should_speak'', JBool True), (''content'', JNull)]))
     = fallback_response ''2026-01-01T00:00:00'' ''not subscriptable''
   \<and> map_of (analyze_context ''gpt-4o'' ''2026-01-01T00:00:00'' (\<lambda>e. ''not subscriptable'')
         (Parsed (JDict [(''should_speak'', JBool True), (''content'', JNull)]))) ''emotion''
       = Some (JStr ''neutral'')
   \<and> main_loop_step4 (analyze_context ''gpt-4o'' ''2026-01-01T00:00:00'' (\<lambda>e. []) NotJson) = Inr None
   \<and> get_response float_digits (ms 45000)
        (Some (analyze_context ''gpt-4o'' ''2026-01-01T00:00:00'' (\<lambda>e. []) NotJson))
        \<lparr>demo_mode = DemoMode_init, is_demo = False\<rparr>
       = Inr [(''should_speak'', JBool True), (''emotion'', JStr ''calm''),
              (''content'', JStr scene_description_text), (''source'', JStr ''fallback'')]
   \<and> (\<exists>r c. get_response float_digits (ms 45000)
               (Some (analyze_context ''gpt-4o'' ''2026-01-01T00:00:00'' (\<lambda>e. []) NotJson))
               \<lparr>demo_mode = start_demo_clip 0 DemoMode_init, is_demo = True\<rparr> = Inr r
          \<and> map_of r ''content'' = Some (JStr c) \<and> c \<noteq> [])"
proof -
  let ?dc0 = "\<lparr>demo_mode = DemoMode_init, is_demo = False\<rparr>"
  let ?dc1 = "\<lparr>demo_mode = start_demo_clip 0 DemoMode_init, is_demo = True\<rparr>"
  let ?bad = "Parsed (JDict [(''should_speak'', JBool True), (''content'', JNull)])"
  have o: "collaborator_failed NotJson" by simp
  have o': "collaborator_failed ?bad" by (simp add: decision_text_def)
  have t0: "clip_responses (demo_mode ?dc0) = DEMO_CLIP_RESPONSES"
    "fallback_responses (demo_mode ?dc0) = FALLBACK_RESPONSES"
    by (simp_all add: DemoMode_init_def)
  have t1: "clip_responses (demo_mode ?dc1) = DEMO_CLIP_RESPONSES"
    "fallback_responses (demo_mode ?dc1) = FALLBACK_RESPONSES"
    by (simp_all add: DemoMode_init_def start_demo_clip_def)
  have f: "\<forall>s v. float_digits s = Some v \<longrightarrow> float_digits s = Some v" by simp
  have b0: "analyze_context ''gpt-4o'' ''2026-01-01T00:00:00'' (\<lambda>e. ''not subscriptable'') ?bad
     = fallback_response ''2026-01-01T00:00:00'' ''not subscriptable''"
    by (simp add: analyze_context_def validate_fields_def setdefault_def setitem_def
        log_decision_def getitem_def)
  from fallback_path [OF o' t0 f, of "''gpt-4o''" "''2026-01-01T00:00:00''"
      "\<lambda>e. ''not subscriptable''" "ms 45000"]
  have b1: "map_of (analyze_context ''gpt-4o'' ''2026-01-01T00:00:00'' (\<lambda>e. ''not subscriptable'')
         ?bad) ''emotion'' = Some (JStr ''neutral'')"
    by blast
  from fallback_path [OF o t0 f, of "''gpt-4o''" "''2026-01-01T00:00:00''" "\<lambda>e. []" "ms 45000"]
  have p0: "main_loop_step4 (analyze_context ''gpt-4o'' ''2026-01-01T00:00:00'' (\<lambda>e. []) NotJson)
      = Inr None"
    by blast
  have p1: "get_response float_digits (ms 45000)
        (Some (analyze_context ''gpt-4o'' ''2026-01-01T00:00:00'' (\<lambda>e. []) NotJson)) ?dc0
       = Inr [(''should_speak'', JBool True), (''emotion'', JStr ''calm''),
              (''content'', JStr scene_description_text), (''source'', JStr ''fallback'')]"
    by (simp add: analyze_context_def fallback_response_def dict_get_def get_response_def
        DemoMode_init_def)
  from fallback_path [OF o t1 f, of "''gpt-4o''" "''2026-01-01T00:00:00''" "\<lambda>e. []" "ms 45000"]
  have p2: "\<exists>r c. get_response float_digits (ms 45000)
               (Some (analyze_context ''gpt-4o'' ''2026-01-01T00:00:00'' (\<lambda>e. []) NotJson)) ?dc1 = Inr r
          \<and> map_of r ''content'' = Some (JStr c) \<and> c \<noteq> []"
    by blast
  from b0 b1 p0 p1 p2 show ?thesis by blast
qed

end
